theory Spec2Isabelle
  imports Complex_Main
begin

section \<open>Python values and exceptions\<close>

text \<open>
  A Python \<open>str\<close> is modelled as the list of its code points, restricted to the code
  points below 256 that the type \<open>char\<close> offers. Exceptions are values: every function
  that can raise returns \<open>py_error + 'a\<close>, with \<open>Inl\<close> carrying the exception class
  and its message. Messages of the repository's own \<open>raise\<close> statements are the source's
  f-strings; messages of library exceptions are abbreviated to their fixed part.
\<close>

datatype py_error =
    ValueError string
  | OverflowError string
  | AttributeError string
  | KeyError string
  | IndexError string
  | FileNotFoundError string
  | FileExistsError string
  | NotADirectoryError string
  | IsADirectoryError string
  | UnpicklingError string

text \<open>
  A Python \<open>float\<close>: a finite value (embedded in the reals), an infinity or NaN.
  \<open>float_ge\<close> is the comparison \<open>a >= b\<close>: false as soon as one side is NaN.
\<close>

datatype py_float = Finite real | PosInf | NegInf | NaN

fun float_ge :: "py_float \<Rightarrow> py_float \<Rightarrow> bool" where
  "float_ge NaN _ = False"
| "float_ge _ NaN = False"
| "float_ge PosInf _ = True"
| "float_ge _ NegInf = True"
| "float_ge NegInf _ = False"
| "float_ge _ PosInf = False"
| "float_ge (Finite a) (Finite b) = (b \<le> a)"

datatype py_obj = PyStr string | PyBool bool | PyInt int | PyFloat py_float

section \<open>preprocess.py\<close>

text \<open>
  \<open>str.strip()\<close> and the regular expression class \<open>\s\<close> use the same test on a code
  point (\<open>str.isspace\<close>); below 256 it holds of TAB, LF, VT, FF, CR, the four
  separators 0x1C..0x1F, the space, NEL (0x85) and the no-break space (0xA0).
\<close>

definition isspace :: "char \<Rightarrow> bool" where
  "isspace c \<longleftrightarrow> (of_char c :: nat) \<in> {9, 10, 11, 12, 13, 28, 29, 30, 31, 32, 133, 160}"

definition lstrip :: "string \<Rightarrow> string" where
  "lstrip s = dropWhile isspace s"

definition rstrip :: "string \<Rightarrow> string" where
  "rstrip s = rev (dropWhile isspace (rev s))"

definition strip :: "string \<Rightarrow> string" where
  "strip s = rstrip (lstrip s)"

text \<open>\<open>_whitespace_re.sub(" ", text)\<close>: every maximal run of whitespace becomes one space.\<close>

function sub_whitespace :: "string \<Rightarrow> string" where
  "sub_whitespace [] = []"
| "sub_whitespace (c # cs) =
     (if isspace c then CHR '' '' # sub_whitespace (dropWhile isspace cs)
      else c # sub_whitespace cs)"
  by pat_completeness auto
termination
  by (relation "measure length") (auto simp: length_dropWhile_le less_Suc_eq_le)

definition normalize_whitespace :: "string \<Rightarrow> string" where
  "normalize_whitespace text = sub_whitespace (strip text)"

definition preprocess_texts :: "string list \<Rightarrow> string list" where
  "preprocess_texts texts = map normalize_whitespace texts"



section \<open>data.py\<close>

subsection \<open>The part of pandas that the loader uses\<close>

text \<open>
  A \<open>Series\<close> is a list of cells tagged with its dtype. A missing value is NaN; only
  object and float64 columns can hold one. The cells of an int64 column lie in the int64
  range and those of a uint64 column between 0 and \<open>2^64 - 1\<close>. A \<open>DataFrame\<close> is the
  list of its columns by name, all of one length. \<open>pd.read_csv\<close> and the string
  conversion \<open>astype(str)\<close> belong to the library and are parameters of the loader.
\<close>

datatype series =
    ObjectSeries "py_obj list"
  | BoolSeries "bool list"
  | Int64Series "int list"
  | UInt64Series "int list"
  | Float64Series "py_float list"

type_synonym dataframe = "(string \<times> series) list"

fun obj_isna :: "py_obj \<Rightarrow> bool" where
  "obj_isna (PyFloat NaN) = True"
| "obj_isna _ = False"

fun isna :: "series \<Rightarrow> bool list" where
  "isna (ObjectSeries xs) = map obj_isna xs"
| "isna (BoolSeries xs) = map (\<lambda>_. False) xs"
| "isna (Int64Series xs) = map (\<lambda>_. False) xs"
| "isna (UInt64Series xs) = map (\<lambda>_. False) xs"
| "isna (Float64Series xs) = map (\<lambda>x. x = NaN) xs"

definition select_rows :: "bool list \<Rightarrow> 'a list \<Rightarrow> 'a list" where
  "select_rows keep xs = map snd (filter fst (zip keep xs))"

fun series_rows :: "bool list \<Rightarrow> series \<Rightarrow> series" where
  "series_rows keep (ObjectSeries xs) = ObjectSeries (select_rows keep xs)"
| "series_rows keep (BoolSeries xs) = BoolSeries (select_rows keep xs)"
| "series_rows keep (Int64Series xs) = Int64Series (select_rows keep xs)"
| "series_rows keep (UInt64Series xs) = UInt64Series (select_rows keep xs)"
| "series_rows keep (Float64Series xs) = Float64Series (select_rows keep xs)"

text \<open>\<open>df[[text_col, label_col]].dropna()\<close> keeps the rows with no missing cell.\<close>

definition dropna_mask :: "series \<Rightarrow> series \<Rightarrow> bool list" where
  "dropna_mask a b = map2 (\<lambda>x y. \<not> x \<and> \<not> y) (isna a) (isna b)"

definition column :: "dataframe \<Rightarrow> string \<Rightarrow> py_error + series" where
  "column df c = (case map_of df c of None \<Rightarrow> Inl (KeyError c) | Some s \<Rightarrow> Inr s)"

subsection \<open>Conversion to integers\<close>

text \<open>
  \<open>int(s)\<close> of a string in base 10, as CPython's \<open>PyLong_FromString\<close> reads it. The
  whitespace skipped at both ends is the ASCII whitespace (TAB, LF, VT, FF, CR, space)
  and the whitespace above 127 (NEL and the no-break space), but not the separators
  0x1C..0x1F that \<open>str.strip\<close> removes. One sign may follow, then the digits, which may
  not start with an underscore and may hold single underscores between digits. A string
  of more than 4300 digits is refused (the default limit of CPython 3.11 and of the
  later releases of 3.7 to 3.10), and this before what follows the digits is looked at.
\<close>

definition int_space :: "char \<Rightarrow> bool" where
  "int_space c \<longleftrightarrow> (of_char c :: nat) \<in> {9, 10, 11, 12, 13, 32, 133, 160}"

definition is_digit :: "char \<Rightarrow> bool" where
  "is_digit c \<longleftrightarrow> 48 \<le> (of_char c :: nat) \<and> (of_char c :: nat) \<le> 57"

definition digit_val :: "char \<Rightarrow> nat" where
  "digit_val c = of_char c - 48"

text \<open>
  The scan over digits and underscores: the value read so far, the number of digits,
  whether the last character was an underscore. It returns the value, the number of
  digits and the rest of the string, or nothing when an underscore is doubled or last.
\<close>

fun scan_digits :: "nat \<Rightarrow> nat \<Rightarrow> bool \<Rightarrow> string \<Rightarrow> (nat \<times> nat \<times> string) option" where
  "scan_digits acc n us [] = (if us then None else Some (acc, n, []))"
| "scan_digits acc n us (c # cs) =
     (if is_digit c then scan_digits (10 * acc + digit_val c) (Suc n) False cs
      else if c = CHR ''_'' then (if us then None else scan_digits acc n True cs)
      else if us then None
      else Some (acc, n, c # cs))"

definition invalid_literal :: string where
  "invalid_literal = ''invalid literal for int() with base 10''"

definition exceeds_limit :: string where
  "exceeds_limit = ''Exceeds the limit (4300 digits) for integer string conversion''"

definition max_str_digits :: nat where
  "max_str_digits = 4300"

definition unsigned_of_str :: "string \<Rightarrow> py_error + nat" where
  "unsigned_of_str u =
     (case u of
        [] \<Rightarrow> Inl (ValueError invalid_literal)
      | c # cs \<Rightarrow>
          if c = CHR ''_'' then Inl (ValueError invalid_literal)
          else
            (case scan_digits 0 0 False u of
               None \<Rightarrow> Inl (ValueError invalid_literal)
             | Some (v, n, rest) \<Rightarrow>
                 if max_str_digits < n then Inl (ValueError exceeds_limit)
                 else if n = 0 \<or> dropWhile int_space rest \<noteq> []
                 then Inl (ValueError invalid_literal)
                 else Inr v))"

definition int_of_str :: "string \<Rightarrow> py_error + int" where
  "int_of_str s =
     (case dropWhile int_space s of
        [] \<Rightarrow> Inl (ValueError invalid_literal)
      | c # cs \<Rightarrow>
          if c = CHR ''-''
          then (case unsigned_of_str cs of Inl e \<Rightarrow> Inl e | Inr n \<Rightarrow> Inr (- int n))
          else if c = CHR ''+''
          then (case unsigned_of_str cs of Inl e \<Rightarrow> Inl e | Inr n \<Rightarrow> Inr (int n))
          else (case unsigned_of_str (c # cs) of Inl e \<Rightarrow> Inl e | Inr n \<Rightarrow> Inr (int n)))"

text \<open>\<open>int(x)\<close> of a finite float truncates toward zero.\<close>

definition trunc :: "real \<Rightarrow> int" where
  "trunc r = (if 0 \<le> r then \<lfloor>r\<rfloor> else \<lceil>r\<rceil>)"

fun py_int :: "py_obj \<Rightarrow> py_error + int" where
  "py_int (PyStr s) = int_of_str s"
| "py_int (PyBool b) = Inr (if b then 1 else 0)"
| "py_int (PyInt i) = Inr i"
| "py_int (PyFloat (Finite r)) = Inr (trunc r)"
| "py_int (PyFloat NaN) = Inl (ValueError ''cannot convert float NaN to integer'')"
| "py_int (PyFloat PosInf) = Inl (OverflowError ''cannot convert float infinity to integer'')"
| "py_int (PyFloat NegInf) = Inl (OverflowError ''cannot convert float infinity to integer'')"

text \<open>
  A cell of an object column on its way into an int64 column: it goes through \<open>int()\<close>,
  and the result has to fit 64 bits.
\<close>

definition to_int64 :: "py_obj \<Rightarrow> py_error + int" where
  "to_int64 v =
     (case py_int v of Inl e \<Rightarrow> Inl e
      | Inr i \<Rightarrow>
          if - (2 ^ 63) \<le> i \<and> i < 2 ^ 63 then Inr i
          else Inl (OverflowError ''Python int too large to convert to C long''))"

text \<open>Converting a list cell by cell; the first failing cell raises.\<close>

fun convert_all :: "('a \<Rightarrow> py_error + 'b) \<Rightarrow> 'a list \<Rightarrow> py_error + 'b list" where
  "convert_all f [] = Inr []"
| "convert_all f (x # xs) =
     (case f x of Inl e \<Rightarrow> Inl e
      | Inr y \<Rightarrow> (case convert_all f xs of Inl e \<Rightarrow> Inl e | Inr ys \<Rightarrow> Inr (y # ys)))"

text \<open>
  A float64 cell on its way into an int64 column. pandas refuses a column with a
  non-finite cell; a finite cell is truncated by the C cast, which for a value beyond
  the int64 range gives the smallest int64 (the result on x86-64).
\<close>

definition float_to_int64 :: "py_float \<Rightarrow> py_error + int" where
  "float_to_int64 x =
     (case x of
        Finite r \<Rightarrow>
          Inr (if - (2 ^ 63) \<le> trunc r \<and> trunc r < 2 ^ 63 then trunc r else - (2 ^ 63))
      | _ \<Rightarrow> Inl (ValueError ''Cannot convert non-finite values (NA or inf) to integer''))"

text \<open>A uint64 cell is reinterpreted as a signed one: it wraps modulo \<open>2^64\<close>.\<close>

definition wrap_int64 :: "int \<Rightarrow> int" where
  "wrap_int64 v = (v + 2 ^ 63) mod 2 ^ 64 - 2 ^ 63"

text \<open>
  \<open>Series.astype(int)\<close>, with \<open>int\<close> the 64-bit integer. An int64 column stays as it is,
  a boolean becomes 0 or 1, a uint64 cell wraps, a float64 cell is truncated, an object
  cell goes through \<open>int()\<close>.
\<close>

fun astype_int :: "series \<Rightarrow> py_error + int list" where
  "astype_int (ObjectSeries xs) = convert_all to_int64 xs"
| "astype_int (BoolSeries xs) = Inr (map (\<lambda>b. if b then 1 else 0) xs)"
| "astype_int (Int64Series xs) = Inr xs"
| "astype_int (UInt64Series xs) = Inr (map wrap_int64 xs)"
| "astype_int (Float64Series xs) = convert_all float_to_int64 xs"

subsection \<open>The dtype of a mapped column\<close>

text \<open>
  \<open>Series.map\<close> with a function collects the results as objects and lets pandas infer
  a dtype for them (\<open>maybe_convert_objects\<close>). The cells are scanned in order and what
  was seen is recorded. A string ends the scan: the column stays an object column. So
  does an integer below the int64 range or above the uint64 range, and the meeting of a
  negative integer and one above the int64 range. Every integer is also stored as a
  double on the way, which raises for an integer too large for a double.
\<close>

record seen =
  nan_seen :: bool
  bool_seen :: bool
  float_seen :: bool
  int_seen :: bool
  uint_seen :: bool
  sint_seen :: bool

definition nothing_seen :: seen where
  "nothing_seen = \<lparr>nan_seen = False, bool_seen = False, float_seen = False,
                    int_seen = False, uint_seen = False, sint_seen = False\<rparr>"

definition saw_int :: "seen \<Rightarrow> int \<Rightarrow> seen" where
  "saw_int s v = s\<lparr>int_seen := True,
                    sint_seen := sint_seen s \<or> (- (2 ^ 63) \<le> v \<and> v < 0),
                    uint_seen := uint_seen s \<or> (2 ^ 63 \<le> v \<and> v < 2 ^ 64)\<rparr>"

definition fits_double :: "int \<Rightarrow> bool" where
  "fits_double v \<longleftrightarrow> \<bar>v\<bar> < 2 ^ 1024 - 2 ^ 970"

fun scan_objects :: "seen \<Rightarrow> py_obj list \<Rightarrow> py_error + seen option" where
  "scan_objects s [] = Inr (Some s)"
| "scan_objects s (PyStr t # xs) = Inr None"
| "scan_objects s (PyBool b # xs) = scan_objects (s\<lparr>bool_seen := True\<rparr>) xs"
| "scan_objects s (PyFloat NaN # xs) = scan_objects (s\<lparr>nan_seen := True\<rparr>) xs"
| "scan_objects s (PyFloat f # xs) = scan_objects (s\<lparr>float_seen := True\<rparr>) xs"
| "scan_objects s (PyInt v # xs) =
     (if \<not> fits_double v then Inl (OverflowError ''int too large to convert to float'')
      else if (uint_seen (saw_int s v) \<and> sint_seen (saw_int s v)) \<or> 2 ^ 64 \<le> v \<or> v < - (2 ^ 63)
      then Inr None
      else scan_objects (saw_int s v) xs)"

text \<open>
  An integer stored as a double is rounded to the nearest double, a tie going to the
  even one: up to 53 bits are kept.
\<close>

fun bit_length :: "nat \<Rightarrow> nat" where
  "bit_length n = (if n = 0 then 0 else Suc (bit_length (n div 2)))"

declare bit_length.simps [simp del]

definition round_to_double :: "int \<Rightarrow> real" where
  "round_to_double v =
     (let a = nat \<bar>v\<bar>; e = bit_length a in
      if e \<le> 53 then of_int v
      else
        (let ulp = 2 ^ (e - 53); q = a div ulp; r = a mod ulp;
             q' = (if ulp < 2 * r \<or> (2 * r = ulp \<and> odd q) then q + 1 else q)
         in of_int (sgn v * int (q' * ulp))))"

fun as_bool :: "py_obj \<Rightarrow> bool" where
  "as_bool (PyBool b) = b"
| "as_bool _ = False"

fun as_int :: "py_obj \<Rightarrow> int" where
  "as_int (PyInt v) = v"
| "as_int _ = 0"

fun as_float :: "py_obj \<Rightarrow> py_float" where
  "as_float (PyFloat f) = f"
| "as_float (PyInt v) = Finite (round_to_double v)"
| "as_float _ = NaN"

text \<open>
  The column that the scan decides on. Booleans make a bool column when there is nothing
  else and an object column otherwise; a NaN or a float makes a float64 column; integers
  alone make a uint64 column when one is above the int64 range and an int64 column
  otherwise; an empty column stays an object column.
\<close>

definition infer_objects :: "py_obj list \<Rightarrow> py_error + series" where
  "infer_objects xs =
     (case scan_objects nothing_seen xs of
        Inl e \<Rightarrow> Inl e
      | Inr None \<Rightarrow> Inr (ObjectSeries xs)
      | Inr (Some s) \<Rightarrow>
          Inr (if bool_seen s
               then (if nan_seen s \<or> float_seen s \<or> int_seen s then ObjectSeries xs
                     else BoolSeries (map as_bool xs))
               else if nan_seen s \<or> float_seen s then Float64Series (map as_float xs)
               else if int_seen s
               then (if uint_seen s then UInt64Series (map as_int xs)
                     else Int64Series (map as_int xs))
               else ObjectSeries xs))"

subsection \<open>The loader\<close>

definition mapping :: "string \<rightharpoonup> int" where
  "mapping = map_of
     [(''FAKE'', 1), (''fake'', 1), (''FALSE'', 1), (''false'', 1),
      (''REAL'', 0), (''real'', 0), (''TRUE'', 0), (''true'', 0)]"

text \<open>\<open>mapping.get(v, v)\<close>: the keys are strings, so any other value is returned as it is.\<close>

fun mapping_get :: "py_obj \<Rightarrow> py_obj" where
  "mapping_get (PyStr s) = (case mapping s of None \<Rightarrow> PyStr s | Some i \<Rightarrow> PyInt i)"
| "mapping_get v = v"

text \<open>
  \<open>series.map(...)\<close> gives the column of the mapped cells with the dtype pandas infers
  for it, and \<open>astype(int)\<close> converts that column. A column that is not an object column
  is converted as it is.
\<close>

fun normalize_labels :: "series \<Rightarrow> py_error + int list" where
  "normalize_labels (ObjectSeries xs) =
     (case infer_objects (map mapping_get xs) of Inl e \<Rightarrow> Inl e | Inr s \<Rightarrow> astype_int s)"
| "normalize_labels s = astype_int s"

definition quote :: char where
  "quote = CHR 0x27"

definition expected_columns :: "string \<Rightarrow> string \<Rightarrow> string" where
  "expected_columns text_col label_col =
     ''Expected columns '' @ [quote] @ text_col @ [quote] @ '' and '' @ [quote] @ label_col
       @ [quote] @ '' in dataset''"

text \<open>
  With \<open>text_col = label_col\<close> the selection \<open>df[[text_col, label_col]]\<close> has two columns
  of one name, \<open>df[label_col]\<close> is then a frame and not a series, and reading its
  \<open>dtype\<close> raises.
\<close>

definition load_dataset_csv ::
  "('path \<Rightarrow> py_error + dataframe) \<Rightarrow> (series \<Rightarrow> string list) \<Rightarrow>
   'path \<Rightarrow> string \<Rightarrow> string \<Rightarrow> py_error + dataframe" where
  "load_dataset_csv read_csv astype_str csv_path text_col label_col =
     (case read_csv csv_path of Inl e \<Rightarrow> Inl e
      | Inr df \<Rightarrow>
          if text_col \<notin> set (map fst df) \<or> label_col \<notin> set (map fst df)
          then Inl (ValueError (expected_columns text_col label_col))
          else if text_col = label_col
          then Inl (AttributeError ''DataFrame object has no attribute dtype'')
          else
            (case column df text_col of Inl e \<Rightarrow> Inl e
             | Inr tx \<Rightarrow>
                (case column df label_col of Inl e \<Rightarrow> Inl e
                 | Inr ly \<Rightarrow>
                    (let keep = dropna_mask tx ly in
                     case normalize_labels (series_rows keep ly) of Inl e \<Rightarrow> Inl e
                     | Inr labels \<Rightarrow>
                         Inr [(text_col,
                               ObjectSeries (map PyStr (astype_str (series_rows keep tx)))),
                              (label_col, Int64Series labels)]))))"

subsection \<open>The splitter\<close>

record Dataset =
  X_train :: series
  X_val :: series
  y_train :: series
  y_val :: series

definition test_size_error :: string where
  "test_size_error = ''test_size should be a float in the (0, 1) range''"

text \<open>
  Modelled from the spec: \<open>sklearn.model_selection.train_test_split\<close>, which
  \<open>train_val_split\<close> calls and which is not part of the repository's sources. The spec
  (4.3) says that the validation fraction must lie in the open interval (0,1) and that a
  value outside it is a configuration error; the stratified shuffle itself, which may
  fail for its own reasons, is the parameter \<open>stratified_shuffle\<close>.
\<close>

definition train_test_split ::
  "(series \<Rightarrow> series \<Rightarrow> real \<Rightarrow> int \<Rightarrow> py_error + series \<times> series \<times> series \<times> series) \<Rightarrow>
   series \<Rightarrow> series \<Rightarrow> real \<Rightarrow> int \<Rightarrow> py_error + series \<times> series \<times> series \<times> series" where
  "train_test_split stratified_shuffle X y test_size random_state =
     (if 0 < test_size \<and> test_size < 1 then stratified_shuffle X y test_size random_state
      else Inl (ValueError test_size_error))"

definition train_val_split ::
  "(series \<Rightarrow> series \<Rightarrow> real \<Rightarrow> int \<Rightarrow> py_error + series \<times> series \<times> series \<times> series) \<Rightarrow>
   dataframe \<Rightarrow> string \<Rightarrow> string \<Rightarrow> real \<Rightarrow> int \<Rightarrow> py_error + Dataset" where
  "train_val_split stratified_shuffle df text_col label_col val_size random_state =
     (case column df text_col of Inl e \<Rightarrow> Inl e
      | Inr X \<Rightarrow>
         (case column df label_col of Inl e \<Rightarrow> Inl e
          | Inr y \<Rightarrow>
             (case train_test_split stratified_shuffle X y val_size random_state of
                Inl e \<Rightarrow> Inl e
              | Inr (Xt, Xv, yt, yv) \<Rightarrow>
                  Inr \<lparr>X_train = Xt, X_val = Xv, y_train = yt, y_val = yv\<rparr>)))"

section \<open>model.py\<close>

subsection \<open>Inference\<close>

text \<open>
  A fitted pipeline is a value of an arbitrary type \<open>'p\<close>; what it computes is the
  library's, so the method \<open>pipeline.predict_proba\<close> is a parameter: given the texts it
  raises or returns a two-dimensional array, here its number of columns and its rows.
  \<open>[:, 1]\<close> takes column 1 and raises when the array has fewer than two columns.
\<close>

type_synonym ndarray = "nat \<times> py_float list list"

definition column_1 :: "ndarray \<Rightarrow> py_error + py_float list" where
  "column_1 a =
     (if 1 < fst a then Inr (map (\<lambda>row. row ! 1) (snd a))
      else Inl (IndexError ''index 1 is out of bounds for axis 1''))"

definition predict_proba ::
  "('p \<Rightarrow> string list \<Rightarrow> py_error + ndarray) \<Rightarrow> 'p \<Rightarrow> string list \<Rightarrow> py_error + py_float list" where
  "predict_proba pipeline_predict_proba pipeline texts =
     (let processed = preprocess_texts texts in
      case pipeline_predict_proba pipeline processed of Inl e \<Rightarrow> Inl e
      | Inr a \<Rightarrow> column_1 a)"

definition predict_label ::
  "('p \<Rightarrow> string list \<Rightarrow> py_error + ndarray) \<Rightarrow> 'p \<Rightarrow> string list \<Rightarrow> py_float \<Rightarrow>
   py_error + int list" where
  "predict_label pipeline_predict_proba pipeline texts threshold =
     (case predict_proba pipeline_predict_proba pipeline texts of Inl e \<Rightarrow> Inl e
      | Inr probs \<Rightarrow> Inr (map (\<lambda>p. if float_ge p threshold then 1 else 0) probs))"

subsection \<open>The model store\<close>

text \<open>
  The file system is an explicit store: a path (its components below the working
  directory) is absent, a directory or a file with its contents. The empty path is the
  working directory. \<open>joblib\<close>'s serialization is the pair of parameters \<open>pickle\<close> and
  \<open>unpickle\<close>.
\<close>

type_synonym path = "string list"

datatype 'b node = Dir | File 'b

type_synonym 'b fs = "path \<rightharpoonup> 'b node"

fun path_str :: "path \<Rightarrow> string" where
  "path_str [] = ''.''"
| "path_str [c] = c"
| "path_str (c # cs) = c @ ''/'' @ path_str cs"

definition path_exists :: "'b fs \<Rightarrow> path \<Rightarrow> bool" where
  "path_exists fs q \<longleftrightarrow> q = [] \<or> fs q \<noteq> None"

definition is_dir :: "'b fs \<Rightarrow> path \<Rightarrow> bool" where
  "is_dir fs q \<longleftrightarrow> q = [] \<or> fs q = Some Dir"

text \<open>
  \<open>Path.mkdir(parents=True, exist_ok=True)\<close>, walking down from the directory \<open>pre\<close>:
  a missing component is created, an existing directory is kept, a file in the way
  raises.
\<close>

fun mkdir_parents :: "'b fs \<Rightarrow> path \<Rightarrow> path \<Rightarrow> py_error + 'b fs" where
  "mkdir_parents fs pre [] = Inr fs"
| "mkdir_parents fs pre (c # cs) =
     (case fs (pre @ [c]) of
        None \<Rightarrow> mkdir_parents (fs(pre @ [c] \<mapsto> Dir)) (pre @ [c]) cs
      | Some Dir \<Rightarrow> mkdir_parents fs (pre @ [c]) cs
      | Some (File _) \<Rightarrow>
          Inl (if cs = [] then FileExistsError (path_str (pre @ [c]))
               else NotADirectoryError (path_str (pre @ c # cs))))"

definition joblib_dump :: "('p \<Rightarrow> 'b) \<Rightarrow> 'p \<Rightarrow> path \<Rightarrow> 'b fs \<Rightarrow> py_error + 'b fs" where
  "joblib_dump pickle value filename fs =
     (if \<not> is_dir fs (butlast filename) then Inl (FileNotFoundError (path_str filename))
      else if is_dir fs filename then Inl (IsADirectoryError (path_str filename))
      else Inr (fs(filename \<mapsto> File (pickle value))))"

definition joblib_load :: "('b \<Rightarrow> 'p option) \<Rightarrow> path \<Rightarrow> 'b fs \<Rightarrow> py_error + 'p" where
  "joblib_load unpickle filename fs =
     (if is_dir fs filename then Inl (IsADirectoryError (path_str filename))
      else
        (case fs filename of
           Some (File b) \<Rightarrow>
             (case unpickle b of None \<Rightarrow> Inl (UnpicklingError ''invalid load key'')
              | Some p \<Rightarrow> Inr p)
         | _ \<Rightarrow> Inl (FileNotFoundError (path_str filename))))"

definition save_model ::
  "('p \<Rightarrow> 'b) \<Rightarrow> 'p \<Rightarrow> path \<Rightarrow> 'b fs \<Rightarrow> py_error + path \<times> 'b fs" where
  "save_model pickle pipeline model_dir fs =
     (case mkdir_parents fs [] model_dir of Inl e \<Rightarrow> Inl e
      | Inr fs1 \<Rightarrow>
          (let model_path = model_dir @ [''model.joblib''] in
           case joblib_dump pickle pipeline model_path fs1 of Inl e \<Rightarrow> Inl e
           | Inr fs2 \<Rightarrow> Inr (model_path, fs2)))"

definition load_model :: "('b \<Rightarrow> 'p option) \<Rightarrow> path \<Rightarrow> 'b fs \<Rightarrow> py_error + 'p" where
  "load_model unpickle model_dir fs =
     (let model_path = model_dir @ [''model.joblib''] in
      if \<not> path_exists fs model_path
      then Inl (FileNotFoundError (''Model not found at '' @ path_str model_path))
      else joblib_load unpickle model_path fs)"

section \<open>Sample inputs\<close>

text \<open>
  Two pipelines to run the inference functions on. The first gives every text the
  probabilities (1/2, 1/2). The second does the same but, like an estimator that
  validates its input, rejects a batch with no sample.
\<close>

definition constant_pipeline :: "unit \<Rightarrow> string list \<Rightarrow> py_error + ndarray" where
  "constant_pipeline p texts = Inr (2, map (\<lambda>_. [Finite (1 / 2), Finite (1 / 2)]) texts)"

definition min_samples :: string where
  "min_samples = ''Found array with 0 sample(s) while a minimum of 1 is required''"

definition min_samples_pipeline :: "unit \<Rightarrow> string list \<Rightarrow> py_error + ndarray" where
  "min_samples_pipeline p texts =
     (if texts = [] then Inl (ValueError min_samples) else constant_pipeline p texts)"

text \<open>A model directory in which \<open>model.joblib\<close> is itself a directory.\<close>

definition dir_in_place :: "string fs" where
  "dir_in_place = [[''models''] \<mapsto> Dir, [''models'', ''model.joblib''] \<mapsto> Dir]"

text \<open>
  A reader that returns a fixed frame with the columns \<open>text\<close> and \<open>label\<close>, the
  string conversion of a column of strings, and a splitter that returns its inputs.
\<close>

definition str_cells :: "series \<Rightarrow> string list" where
  "str_cells s =
     (case s of ObjectSeries xs \<Rightarrow> map (\<lambda>v. case v of PyStr t \<Rightarrow> t | _ \<Rightarrow> []) xs | _ \<Rightarrow> [])"

definition frame :: "py_obj list \<Rightarrow> series \<Rightarrow> unit \<Rightarrow> py_error + dataframe" where
  "frame texts labels path = Inr [(''text'', ObjectSeries texts), (''label'', labels)]"

definition no_shuffle ::
  "series \<Rightarrow> series \<Rightarrow> real \<Rightarrow> int \<Rightarrow> py_error + series \<times> series \<times> series \<times> series" where
  "no_shuffle X y test_size random_state = Inr (X, X, y, y)"

section \<open>Properties of the text normalizer\<close>



lemma sub_whitespace_head:
  "\<not> isspace c \<Longrightarrow> sub_whitespace (c # cs) = c # sub_whitespace cs"
  by simp













section \<open>Properties of inference\<close>

text \<open>
  Claim C2. The threshold is closed on the upper side: \<open>predict_label\<close> fails exactly as
  \<open>predict_proba\<close> does, and otherwise returns one label per probability, 1 if and only
  if the probability is greater than or equal to the threshold and 0 otherwise. A text
  whose probability is exactly 0.5 gets 1 at threshold 0.5 and 0 at threshold 0.51.
\<close>

theorem predict_label_threshold:
  "predict_label pp p texts t =
     (case predict_proba pp p texts of Inl e \<Rightarrow> Inl e
      | Inr probs \<Rightarrow> Inr (map (\<lambda>q. if float_ge q t then 1 else 0) probs))
   \<and> (\<forall>probs. predict_proba pp p texts = Inr probs \<longrightarrow>
        (\<exists>labels. predict_label pp p texts t = Inr labels \<and> length labels = length probs \<and>
           (\<forall>i<length probs. (labels ! i = 1 \<longleftrightarrow> float_ge (probs ! i) t)
                            \<and> (labels ! i = 0 \<longleftrightarrow> \<not> float_ge (probs ! i) t))))
   \<and> (\<forall>probs i. predict_proba pp p texts = Inr probs \<and> i < length probs \<and> probs ! i = Finite (1 / 2) \<longrightarrow>
        (\<exists>l1 l2. predict_label pp p texts (Finite (1 / 2)) = Inr l1 \<and> l1 ! i = 1
               \<and> predict_label pp p texts (Finite (51 / 100)) = Inr l2 \<and> l2 ! i = 0))"
proof (cases "predict_proba pp p texts")
  case (Inl e)
  then show ?thesis by (simp add: predict_label_def)
next
  case (Inr probs)
  then show ?thesis by (simp add: predict_label_def)
qed

theorem predict_label_threshold_witness:
  "predict_label constant_pipeline () [''breaking   news''] (Finite (1 / 2)) = Inr [1]
   \<and> predict_label constant_pipeline () [''breaking   news''] (Finite (51 / 100)) = Inr [0]"
proof -
  have pr: "predict_proba constant_pipeline () [''breaking   news''] = Inr [Finite (1 / 2)]"
    by (simp add: predict_proba_def constant_pipeline_def column_1_def preprocess_texts_def)
  from predict_label_threshold [of constant_pipeline "()" "[''breaking   news'']" "Finite (1 / 2)"]
       predict_label_threshold [of constant_pipeline "()" "[''breaking   news'']" "Finite (51 / 100)"]
       pr
  show ?thesis by simp
qed

text \<open>
  Claim C3, at a pipeline that rejects an empty batch: the exception of the pipeline
  reaches the caller of \<open>predict_proba\<close> and of \<open>predict_label\<close>, which have no guard
  of their own.
\<close>

theorem predict_empty_batch_counterexample:
  "predict_proba min_samples_pipeline () [] = Inl (ValueError min_samples)
   \<and> predict_label min_samples_pipeline () [] (Finite (1 / 2)) = Inl (ValueError min_samples)"
  by (simp add: predict_label_def predict_proba_def min_samples_pipeline_def preprocess_texts_def)

text \<open>
  Claim C3 as amended. On the empty list of texts the two functions add no failure of
  their own: when the pipeline accepts the empty batch and returns an array with no row
  (and at least two columns) both return the empty list, and when the pipeline raises,
  both raise the same exception.
\<close>

theorem predict_empty_batch:
  "(pp p [] = Inr (n, []) \<and> 1 < n \<longrightarrow>
      predict_proba pp p [] = Inr [] \<and> predict_label pp p [] t = Inr [])
   \<and> (pp p [] = Inl e \<longrightarrow>
      predict_proba pp p [] = Inl e \<and> predict_label pp p [] t = Inl e)"
  by (simp add: predict_label_def predict_proba_def preprocess_texts_def column_1_def)

theorem predict_empty_batch_witness:
  "constant_pipeline () [] = Inr (2, []) \<and> (1::nat) < 2
   \<and> predict_proba constant_pipeline () [] = Inr []
   \<and> predict_label constant_pipeline () [] (Finite (1 / 2)) = Inr []
   \<and> min_samples_pipeline () [] = Inl (ValueError min_samples)
   \<and> predict_label min_samples_pipeline () [] (Finite (1 / 2)) = Inl (ValueError min_samples)"
proof -
  have a: "constant_pipeline () [] = Inr (2, [])" by (simp add: constant_pipeline_def)
  have b: "min_samples_pipeline () [] = Inl (ValueError min_samples)"
    by (simp add: min_samples_pipeline_def)
  from a b predict_empty_batch [of constant_pipeline "()" 2 "Finite (1 / 2)"]
       predict_empty_batch [of min_samples_pipeline "()" _ "Finite (1 / 2)" "ValueError min_samples"]
  show ?thesis by simp
qed

section \<open>Properties of the model store\<close>

lemma model_path_exists: "path_exists fs (d @ [c]) \<longleftrightarrow> fs (d @ [c]) \<noteq> None"
  by (simp add: path_exists_def)

lemma model_path_is_dir: "is_dir fs (d @ [c]) \<longleftrightarrow> fs (d @ [c]) = Some Dir"
  by (simp add: is_dir_def)

lemma save_model_Inr:
  assumes "save_model pickle p d fs = Inr (mp, fs')"
  shows "mp = d @ [''model.joblib''] \<and>
         (\<exists>fs1. mkdir_parents fs [] d = Inr fs1 \<and> joblib_dump pickle p (d @ [''model.joblib'']) fs1 = Inr fs')"
proof (cases "mkdir_parents fs [] d")
  case (Inl e)
  with assms show ?thesis by (simp add: save_model_def)
next
  case (Inr fs1)
  show ?thesis
  proof (cases "joblib_dump pickle p (d @ [''model.joblib'']) fs1")
    case (Inl e)
    with assms Inr show ?thesis by (simp add: save_model_def)
  next
    case dump: (Inr fs2)
    with assms Inr show ?thesis by (simp add: save_model_def)
  qed
qed

lemma joblib_dump_Inr:
  assumes "joblib_dump pickle p f fs1 = Inr fs'"
  shows "fs' = fs1(f \<mapsto> File (pickle p))"
proof -
  from assms have "\<not> (\<not> is_dir fs1 (butlast f))" "\<not> is_dir fs1 f"
    unfolding joblib_dump_def by (simp_all split: if_splits)
  with assms show ?thesis unfolding joblib_dump_def by simp
qed

lemma load_model_File:
  assumes "fs (d @ [''model.joblib'']) = Some (File b)"
  shows "load_model unpickle d fs =
     (case unpickle b of None \<Rightarrow> Inl (UnpicklingError ''invalid load key'') | Some p \<Rightarrow> Inr p)"
  using assms by (simp add: load_model_def joblib_load_def model_path_exists model_path_is_dir)

lemma mkdir_parents_keeps:
  "mkdir_parents fs pre cs = Inr fs1 \<Longrightarrow> length pre + length cs < length q \<Longrightarrow> fs1 q = fs q"
proof (induction cs arbitrary: fs pre)
  case Nil
  then show ?case by simp
next
  case (Cons c cs)
  show ?case
  proof (cases "fs (pre @ [c])")
    case None
    with Cons.prems(1) have "mkdir_parents (fs(pre @ [c] \<mapsto> Dir)) (pre @ [c]) cs = Inr fs1" by simp
    from Cons.IH [OF this] Cons.prems(2) have "fs1 q = (fs(pre @ [c] \<mapsto> Dir)) q" by simp
    moreover from Cons.prems(2) have "q \<noteq> pre @ [c]" by auto
    ultimately show ?thesis by simp
  next
    case (Some nd)
    show ?thesis
    proof (cases nd)
      case Dir
      with Some Cons.prems(1) have "mkdir_parents fs (pre @ [c]) cs = Inr fs1" by simp
      from Cons.IH [OF this] Cons.prems(2) show ?thesis by simp
    next
      case (File b)
      with Some Cons.prems(1) show ?thesis by simp
    qed
  qed
qed

lemma mkdir_parents_is_dir:
  "mkdir_parents fs pre cs = Inr fs1 \<Longrightarrow> is_dir fs pre \<Longrightarrow> is_dir fs1 (pre @ cs)"
proof (induction cs arbitrary: fs pre)
  case Nil
  then show ?case by simp
next
  case (Cons c cs)
  show ?case
  proof (cases "fs (pre @ [c])")
    case None
    with Cons.prems(1) have "mkdir_parents (fs(pre @ [c] \<mapsto> Dir)) (pre @ [c]) cs = Inr fs1" by simp
    moreover have "is_dir (fs(pre @ [c] \<mapsto> Dir)) (pre @ [c])" by (simp add: is_dir_def)
    ultimately have "is_dir fs1 ((pre @ [c]) @ cs)" by (rule Cons.IH)
    then show ?thesis by simp
  next
    case (Some nd)
    show ?thesis
    proof (cases nd)
      case Dir
      with Some Cons.prems(1) have "mkdir_parents fs (pre @ [c]) cs = Inr fs1" by simp
      moreover from Some Dir have "is_dir fs (pre @ [c])" by (simp add: is_dir_def)
      ultimately have "is_dir fs1 ((pre @ [c]) @ cs)" by (rule Cons.IH)
      then show ?thesis by simp
    next
      case (File b)
      with Some Cons.prems(1) show ?thesis by simp
    qed
  qed
qed

lemma mkdir_parents_returns:
  "(\<And>k b. 0 < k \<Longrightarrow> k \<le> length cs \<Longrightarrow> fs (pre @ take k cs) \<noteq> Some (File b))
   \<Longrightarrow> \<exists>fs1. mkdir_parents fs pre cs = Inr fs1"
proof (induction cs arbitrary: fs pre)
  case Nil
  show ?case by simp
next
  case (Cons c cs)
  have head: "fs (pre @ [c]) \<noteq> Some (File b)" for b
    using Cons.prems [of 1 b] by simp
  have rest: "fs ((pre @ [c]) @ take k cs) \<noteq> Some (File b)" if "0 < k" "k \<le> length cs" for k b
    using Cons.prems [of "Suc k" b] that by simp
  show ?case
  proof (cases "fs (pre @ [c])")
    case None
    have "\<exists>fs1. mkdir_parents (fs(pre @ [c] \<mapsto> Dir)) (pre @ [c]) cs = Inr fs1"
    proof (rule Cons.IH)
      fix k b assume k: "0 < k" "k \<le> length cs"
      then have "take k cs \<noteq> []" by auto
      then have "(pre @ [c]) @ take k cs \<noteq> pre @ [c]" by simp
      with rest [OF k] show "(fs(pre @ [c] \<mapsto> Dir)) ((pre @ [c]) @ take k cs) \<noteq> Some (File b)"
        by (simp del: append_assoc)
    qed
    with None show ?thesis by simp
  next
    case (Some nd)
    with head obtain "nd = Dir" by (cases nd) auto
    with Some have "mkdir_parents fs pre (c # cs) = mkdir_parents fs (pre @ [c]) cs" by simp
    moreover have "\<exists>fs1. mkdir_parents fs (pre @ [c]) cs = Inr fs1"
      by (rule Cons.IH) (rule rest)
    ultimately show ?thesis by simp
  qed
qed

lemma save_model_returns:
  assumes mk: "mkdir_parents fs [] d = Inr fs1"
      and nodir: "fs (d @ [''model.joblib'']) \<noteq> Some Dir"
  shows "save_model pickle p d fs =
           Inr (d @ [''model.joblib''], fs1(d @ [''model.joblib''] \<mapsto> File (pickle p)))"
proof -
  from mkdir_parents_is_dir [OF mk] have "is_dir fs1 d" by (simp add: is_dir_def)
  moreover from mkdir_parents_keeps [OF mk, of "d @ [''model.joblib'']"]
  have "fs1 (d @ [''model.joblib'']) = fs (d @ [''model.joblib''])" by simp
  with nodir have "\<not> is_dir fs1 (d @ [''model.joblib''])" by (simp add: model_path_is_dir)
  ultimately have "joblib_dump pickle p (d @ [''model.joblib'']) fs1 =
      Inr (fs1(d @ [''model.joblib''] \<mapsto> File (pickle p)))"
    by (simp add: joblib_dump_def)
  with mk show ?thesis by (simp add: save_model_def Let_def)
qed

text \<open>
  Claim C1. Saving and loading preserve predictions. Provided that the serialization
  gives back what it was given, whenever \<open>save_model\<close> returns, it returns the path
  \<open>model.joblib\<close> inside the directory, and \<open>load_model\<close> on that directory then returns
  a pipeline (the saved one) whose \<open>predict_proba\<close> and \<open>predict_label\<close> agree with the
  saved pipeline's on every list of texts and every threshold. And \<open>save_model\<close> does
  return when no component of the directory's path is a file and \<open>model.joblib\<close> in it
  is not a directory.
\<close>

theorem save_load_roundtrip:
  assumes codec: "\<forall>q. unpickle (pickle q) = Some q"
  shows "(\<forall>mp fs'. save_model pickle p d fs = Inr (mp, fs') \<longrightarrow>
            mp = d @ [''model.joblib'']
            \<and> load_model unpickle d fs' = Inr p
            \<and> (\<exists>p'. load_model unpickle d fs' = Inr p'
                  \<and> (\<forall>texts. predict_proba pp p' texts = predict_proba pp p texts)
                  \<and> (\<forall>texts t. predict_label pp p' texts t = predict_label pp p texts t)))
         \<and> ((\<forall>k b. 0 < k \<and> k \<le> length d \<longrightarrow> fs (take k d) \<noteq> Some (File b))
              \<and> fs (d @ [''model.joblib'']) \<noteq> Some Dir \<longrightarrow>
            (\<exists>mp fs'. save_model pickle p d fs = Inr (mp, fs')))"
proof (intro conjI allI impI)
  fix mp fs' assume saved: "save_model pickle p d fs = Inr (mp, fs')"
  from save_model_Inr [OF saved] obtain fs1 where
    mp: "mp = d @ [''model.joblib'']" and
    dump: "joblib_dump pickle p (d @ [''model.joblib'']) fs1 = Inr fs'" by blast
  from joblib_dump_Inr [OF dump]
  have at: "fs' (d @ [''model.joblib'']) = Some (File (pickle p))" by simp
  from load_model_File [where fs = fs' and d = d and b = "pickle p" and unpickle = unpickle, OF at] codec
  have loaded: "load_model unpickle d fs' = Inr p" by simp
  then show "load_model unpickle d fs' = Inr p" .
  from loaded show "\<exists>p'. load_model unpickle d fs' = Inr p'
                  \<and> (\<forall>texts. predict_proba pp p' texts = predict_proba pp p texts)
                  \<and> (\<forall>texts t. predict_label pp p' texts t = predict_label pp p texts t)" by simp
  from mp show "mp = d @ [''model.joblib'']" .
next
  assume ok: "(\<forall>k b. 0 < k \<and> k \<le> length d \<longrightarrow> fs (take k d) \<noteq> Some (File b))
              \<and> fs (d @ [''model.joblib'']) \<noteq> Some Dir"
  then have "\<exists>fs1. mkdir_parents fs [] d = Inr fs1"
    using mkdir_parents_returns [of d fs "[]"] by simp
  then obtain fs1 where "mkdir_parents fs [] d = Inr fs1" ..
  from save_model_returns [OF this, of pickle p] ok
  show "\<exists>mp fs'. save_model pickle p d fs = Inr (mp, fs')" by simp
qed

theorem save_load_roundtrip_witness:
  "save_model id ''weights'' [''models''] (Map.empty :: string fs) =
     Inr ([''models'', ''model.joblib''],
          [[''models''] \<mapsto> Dir, [''models'', ''model.joblib''] \<mapsto> File ''weights''])
   \<and> load_model Some [''models'']
        [[''models''] \<mapsto> Dir, [''models'', ''model.joblib''] \<mapsto> File ''weights''] = Inr ''weights''
   \<and> predict_proba constant_pipeline () [''a  b''] = Inr [Finite (1 / 2)]"
proof -
  have codec: "\<forall>q::string. Some (id q) = Some q" by simp
  have saved: "save_model id ''weights'' [''models''] (Map.empty :: string fs) =
     Inr ([''models'', ''model.joblib''],
          [[''models''] \<mapsto> Dir, [''models'', ''model.joblib''] \<mapsto> File ''weights''])"
    by (simp add: save_model_def joblib_dump_def is_dir_def Let_def)
  have pr: "predict_proba constant_pipeline () [''a  b''] = Inr [Finite (1 / 2)]"
    by (simp add: predict_proba_def constant_pipeline_def column_1_def preprocess_texts_def)
  from save_load_roundtrip [of Some id "''weights''" "[''models'']" "Map.empty :: string fs", OF codec]
       saved pr
  show ?thesis by simp
qed

text \<open>
  Claim C8, at a model directory where \<open>model.joblib\<close> is a directory: no artifact file
  exists at the expected path, and loading fails, but not with \<open>FileNotFoundError\<close>.
\<close>

theorem load_model_not_found_counterexample:
  "load_model Some [''models''] dir_in_place = Inl (IsADirectoryError ''models/model.joblib'')
   \<and> dir_in_place [''models'', ''model.joblib''] = Some Dir"
  by (simp add: load_model_def joblib_load_def dir_in_place_def path_exists_def is_dir_def)

text \<open>
  Claim C8 as amended. Loading fails with \<open>FileNotFoundError\<close>, and then with the message
  \<open>Model not found at ...\<close>, if and only if nothing at all exists at the path
  \<open>model.joblib\<close> inside the directory, be it a file or a directory.
\<close>

theorem load_model_not_found:
  "(load_model unpickle d fs =
      Inl (FileNotFoundError (''Model not found at '' @ path_str (d @ [''model.joblib'']))))
     = (fs (d @ [''model.joblib'']) = None)
   \<and> (\<forall>msg. load_model unpickle d fs = Inl (FileNotFoundError msg) \<longrightarrow>
         fs (d @ [''model.joblib'']) = None)"
proof (cases "fs (d @ [''model.joblib''])")
  case None
  then show ?thesis by (simp add: load_model_def model_path_exists)
next
  case (Some nd)
  then show ?thesis
    by (cases nd) (simp_all add: load_model_def joblib_load_def model_path_exists model_path_is_dir
                     split: option.splits)
qed

theorem load_model_not_found_witness:
  "load_model Some [''models''] (Map.empty :: string fs) = Inl (FileNotFoundError ''Model not found at models/model.joblib'')"
  using load_model_not_found [of Some "[''models'']" "Map.empty :: string fs"] by simp

section \<open>Properties of the loader\<close>

lemma convert_all_Inl:
  "convert_all f xs = Inl e \<Longrightarrow> \<exists>x\<in>set xs. f x = Inl e"
  by (induction xs arbitrary: e) (auto split: sum.splits)

lemma convert_all_fails:
  "x \<in> set xs \<Longrightarrow> f x = Inl e \<Longrightarrow> \<exists>e'. convert_all f xs = Inl e'"
  by (induction xs) (auto split: sum.splits)

lemma unsigned_of_str_error:
  "unsigned_of_str u = Inl e \<Longrightarrow> e = ValueError invalid_literal \<or> e = ValueError exceeds_limit"
  by (auto simp: unsigned_of_str_def split: list.splits option.splits if_splits prod.splits)

lemma int_of_str_error:
  assumes "int_of_str s = Inl e"
  shows "e = ValueError invalid_literal \<or> e = ValueError exceeds_limit"
proof (cases "dropWhile int_space s")
  case Nil
  with assms show ?thesis by (simp add: int_of_str_def)
next
  case (Cons c cs)
  with assms have "unsigned_of_str cs = Inl e \<or> unsigned_of_str (c # cs) = Inl e"
    by (auto simp: int_of_str_def split: if_splits sum.splits)
  then show ?thesis using unsigned_of_str_error by blast
qed

lemma py_int_error:
  assumes "py_int v = Inl e"
  shows "e = ValueError invalid_literal \<or> e = ValueError exceeds_limit
         \<or> e = ValueError ''cannot convert float NaN to integer''
         \<or> (\<exists>m. e = OverflowError m)"
proof (cases v)
  case (PyStr s)
  with assms int_of_str_error [of s e] show ?thesis by auto
next
  case (PyFloat f)
  with assms show ?thesis by (cases f) auto
qed (use assms in simp_all)

lemma to_int64_error:
  assumes "to_int64 v = Inl e"
  shows "e = ValueError invalid_literal \<or> e = ValueError exceeds_limit
         \<or> e = ValueError ''cannot convert float NaN to integer''
         \<or> (\<exists>m. e = OverflowError m)"
proof (cases "py_int v")
  case (Inl e')
  with assms have "e = e'" by (simp add: to_int64_def)
  with Inl py_int_error show ?thesis by blast
next
  case (Inr i)
  with assms show ?thesis by (auto simp: to_int64_def split: if_splits)
qed

lemma float_to_int64_error:
  "float_to_int64 x = Inl e \<Longrightarrow>
     e = ValueError ''Cannot convert non-finite values (NA or inf) to integer''"
  by (cases x) (simp_all add: float_to_int64_def)

lemma astype_int_error:
  assumes "astype_int s = Inl e"
  shows "e = ValueError invalid_literal \<or> e = ValueError exceeds_limit
         \<or> e = ValueError ''cannot convert float NaN to integer''
         \<or> e = ValueError ''Cannot convert non-finite values (NA or inf) to integer''
         \<or> (\<exists>m. e = OverflowError m)"
proof (cases s)
  case (ObjectSeries xs)
  with assms have "convert_all to_int64 xs = Inl e" by simp
  from convert_all_Inl [OF this] obtain x where "to_int64 x = Inl e" by blast
  from to_int64_error [OF this] show ?thesis by blast
next
  case (Float64Series xs)
  with assms have "convert_all float_to_int64 xs = Inl e" by simp
  from convert_all_Inl [OF this] obtain x where "float_to_int64 x = Inl e" by blast
  from float_to_int64_error [OF this] show ?thesis by blast
qed (use assms in simp_all)

lemma scan_objects_error:
  "scan_objects s xs = Inl e \<Longrightarrow> e = OverflowError ''int too large to convert to float''"
  by (induction s xs rule: scan_objects.induct) (auto split: if_splits)

lemma infer_objects_error:
  "infer_objects xs = Inl e \<Longrightarrow> e = OverflowError ''int too large to convert to float''"
  by (auto simp: infer_objects_def split: sum.splits option.splits dest: scan_objects_error)

lemma normalize_labels_other:
  "(\<forall>xs. s \<noteq> ObjectSeries xs) \<Longrightarrow> normalize_labels s = astype_int s"
  by (cases s) simp_all

lemma normalize_labels_error:
  assumes "normalize_labels s = Inl e"
  shows "e = ValueError invalid_literal \<or> e = ValueError exceeds_limit
         \<or> e = ValueError ''cannot convert float NaN to integer''
         \<or> e = ValueError ''Cannot convert non-finite values (NA or inf) to integer''
         \<or> (\<exists>m. e = OverflowError m)"
proof (cases "\<exists>xs. s = ObjectSeries xs")
  case False
  with assms have "astype_int s = Inl e" by (simp add: normalize_labels_other)
  then show ?thesis by (rule astype_int_error)
next
  case True
  then obtain xs where ObjectSeries: "s = ObjectSeries xs" ..
  show ?thesis
  proof (cases "infer_objects (map mapping_get xs)")
    case (Inl e')
    with assms ObjectSeries have "e = e'" by simp
    with Inl infer_objects_error show ?thesis by blast
  next
    case (Inr s')
    with assms ObjectSeries have "astype_int s' = Inl e" by simp
    then show ?thesis by (rule astype_int_error)
  qed
qed

lemma normalize_labels_not_expected_columns:
  "normalize_labels s \<noteq> Inl (ValueError (expected_columns a b))"
proof
  assume "normalize_labels s = Inl (ValueError (expected_columns a b))"
  from normalize_labels_error [OF this] show False
    by (simp add: expected_columns_def invalid_literal_def exceeds_limit_def)
qed

lemma column_Some: "map_of df c = Some s \<Longrightarrow> column df c = Inr s"
  by (simp add: column_def)

lemma in_columns: "c \<in> fst ` set df \<longleftrightarrow> map_of df c \<noteq> None"
  by (simp add: map_of_eq_None_iff)

lemma load_dataset_csv_present:
  assumes "read_csv csv_path = Inr df" "map_of df text_col = Some tx"
      "map_of df label_col = Some ly" "text_col \<noteq> label_col"
  shows "load_dataset_csv read_csv astype_str csv_path text_col label_col =
     (case normalize_labels (series_rows (dropna_mask tx ly) ly) of Inl e \<Rightarrow> Inl e
      | Inr labels \<Rightarrow>
          Inr [(text_col, ObjectSeries (map PyStr (astype_str (series_rows (dropna_mask tx ly) tx)))),
               (label_col, Int64Series labels)])"
  using assms by (simp add: load_dataset_csv_def in_columns column_Some Let_def)

lemmas eval_loader =
  load_dataset_csv_def frame_def column_def dropna_mask_def select_rows_def mapping_def
  infer_objects_def nothing_seen_def saw_int_def fits_double_def wrap_int64_def
  to_int64_def int_of_str_def unsigned_of_str_def max_str_digits_def int_space_def
  is_digit_def digit_val_def str_cells_def Let_def

text \<open>
  Claim C7. For every file that \<open>read_csv\<close> parses and every pair of column names, the
  loader raises the \<open>ValueError\<close> with the message \<open>Expected columns ...\<close> if and only
  if the text column or the label column is not among the columns of the file.
\<close>

theorem load_dataset_csv_schema_error:
  assumes "read_csv csv_path = Inr df"
  shows "(load_dataset_csv read_csv astype_str csv_path text_col label_col =
            Inl (ValueError (expected_columns text_col label_col)))
         = (text_col \<notin> set (map fst df) \<or> label_col \<notin> set (map fst df))"
proof (cases "text_col \<notin> set (map fst df) \<or> label_col \<notin> set (map fst df)")
  case True
  with assms show ?thesis by (simp add: load_dataset_csv_def)
next
  case False
  then obtain tx ly where tx: "map_of df text_col = Some tx" and ly: "map_of df label_col = Some ly"
    by (auto simp: in_columns)
  show ?thesis
  proof (cases "text_col = label_col")
    case True
    with assms False show ?thesis by (simp add: load_dataset_csv_def)
  next
    case ne: False
    have "load_dataset_csv read_csv astype_str csv_path text_col label_col
            \<noteq> Inl (ValueError (expected_columns text_col label_col))"
      unfolding load_dataset_csv_present
        [where read_csv = read_csv and csv_path = csv_path, OF assms tx ly ne]
      using normalize_labels_not_expected_columns [of "series_rows (dropna_mask tx ly) ly" text_col label_col]
      by (auto split: sum.splits)
    with False show ?thesis by simp
  qed
qed

theorem load_dataset_csv_schema_error_witness:
  "load_dataset_csv (frame [PyStr ''hello''] (ObjectSeries [PyStr ''FAKE''])) str_cells () ''text'' ''category''
     = Inl (ValueError (expected_columns ''text'' ''category''))
   \<and> load_dataset_csv (frame [PyStr ''hello''] (ObjectSeries [PyStr ''FAKE''])) str_cells () ''text'' ''label''
     \<noteq> Inl (ValueError (expected_columns ''text'' ''label''))"
  using load_dataset_csv_schema_error
          [where read_csv = "frame [PyStr ''hello''] (ObjectSeries [PyStr ''FAKE''])" and csv_path = "()"
             and df = "[(''text'', ObjectSeries [PyStr ''hello'']), (''label'', ObjectSeries [PyStr ''FAKE''])]"
             and astype_str = str_cells and text_col = "''text''" and label_col = "''category''"]
        load_dataset_csv_schema_error
          [where read_csv = "frame [PyStr ''hello''] (ObjectSeries [PyStr ''FAKE''])" and csv_path = "()"
             and df = "[(''text'', ObjectSeries [PyStr ''hello'']), (''label'', ObjectSeries [PyStr ''FAKE''])]"
             and astype_str = str_cells and text_col = "''text''" and label_col = "''label''"]
  by (simp add: frame_def)

lemma select_rows_mem:
  "i < length keep \<Longrightarrow> i < length xs \<Longrightarrow> keep ! i \<Longrightarrow> xs ! i \<in> set (select_rows keep xs)"
proof -
  assume a: "i < length keep" "i < length xs" "keep ! i"
  then have "(keep ! i, xs ! i) \<in> set (zip keep xs)" by (auto simp: in_set_zip)
  with a(3) have "(keep ! i, xs ! i) \<in> set (filter fst (zip keep xs))" by simp
  then have "snd (keep ! i, xs ! i) \<in> snd ` set (filter fst (zip keep xs))" by (rule imageI)
  then show ?thesis by (simp add: select_rows_def)
qed

lemma select_rows_set:
  "x \<in> set (select_rows keep xs) \<Longrightarrow> \<exists>i. i < length keep \<and> i < length xs \<and> keep ! i \<and> xs ! i = x"
  by (auto simp: select_rows_def in_set_zip)

lemma select_rows_all: "\<forall>k\<in>set keep. k \<Longrightarrow> length keep = length xs \<Longrightarrow> select_rows keep xs = xs"
proof -
  assume a: "\<forall>k\<in>set keep. k" and l: "length keep = length xs"
  have "filter fst (zip keep xs) = zip keep xs"
    using a by (auto simp: filter_id_conv dest: set_zip_leftD)
  with l show ?thesis by (simp add: select_rows_def)
qed

lemma dropna_mask_nth:
  "i < length (isna a) \<Longrightarrow> i < length (isna b) \<Longrightarrow>
     dropna_mask a b ! i = (\<not> isna a ! i \<and> \<not> isna b ! i)"
  by (simp add: dropna_mask_def)

lemma dropna_mask_length: "length (dropna_mask a b) = min (length (isna a)) (length (isna b))"
  by (simp add: dropna_mask_def)

lemma kept_not_na:
  assumes "x \<in> set (select_rows (dropna_mask tx (ObjectSeries ls)) ls)"
  shows "\<not> obj_isna x"
proof -
  from select_rows_set [OF assms] obtain i where
    i: "i < length (dropna_mask tx (ObjectSeries ls))" "i < length ls"
       "dropna_mask tx (ObjectSeries ls) ! i" "ls ! i = x" by blast
  from i(1) have "i < length (isna tx)" by (simp add: dropna_mask_length)
  with i(2,3) have "\<not> obj_isna (ls ! i)" by (simp add: dropna_mask_nth)
  with i(4) show ?thesis by simp
qed

lemma to_int64_kept_error:
  assumes "\<not> obj_isna v" "to_int64 (mapping_get v) = Inl e"
  shows "e = ValueError invalid_literal \<or> e = ValueError exceeds_limit \<or> (\<exists>m. e = OverflowError m)"
proof -
  have "mapping_get v \<noteq> PyFloat NaN" using assms(1)
    by (cases v) (auto split: option.splits)
  then have "py_int (mapping_get v) \<noteq> Inl (ValueError ''cannot convert float NaN to integer'')"
  proof (cases "mapping_get v")
    case (PyStr s)
    with int_of_str_error [of s "ValueError ''cannot convert float NaN to integer''"]
    show ?thesis by (auto simp: invalid_literal_def exceeds_limit_def)
  next
    case (PyFloat f)
    assume "mapping_get v \<noteq> PyFloat NaN"
    with PyFloat show ?thesis by (cases f) simp_all
  qed simp_all
  moreover from assms(2) have "py_int (mapping_get v) = Inl e \<or> (\<exists>m. e = OverflowError m)"
    by (auto simp: to_int64_def split: sum.splits if_splits)
  ultimately show ?thesis using to_int64_error [OF assms(2)] by auto
qed

lemma scan_objects_str:
  "PyStr t \<in> set xs \<Longrightarrow>
     scan_objects s xs = Inr None \<or> (\<exists>m. scan_objects s xs = Inl (OverflowError m))"
  by (induction s xs rule: scan_objects.induct) auto

lemma infer_objects_str:
  assumes "PyStr t \<in> set xs"
  shows "infer_objects xs = Inr (ObjectSeries xs) \<or> (\<exists>m. infer_objects xs = Inl (OverflowError m))"
  using scan_objects_str [OF assms, of nothing_seen] by (auto simp: infer_objects_def)

text \<open>
  Claim C6. Take a file with the text and the label column whose label column holds, in
  a row that is kept (its text is present), a string that is not a key of the mapping,
  which covers every string outside the recognized encodings in any case, and that
  \<open>int()\<close> refuses. Then the loader fails, and with a failure of the integer coercion of
  a label: the \<open>ValueError\<close> of \<open>int()\<close> or an \<open>OverflowError\<close>. The value is not passed
  through: alone in its column it fails with the very error \<open>int()\<close> gives for it.
\<close>

theorem unrecognized_label_fails:
  assumes rd: "read_csv csv_path = Inr df"
      and tx: "map_of df text_col = Some tx"
      and ly: "map_of df label_col = Some (ObjectSeries ls)"
      and ne: "text_col \<noteq> label_col"
      and i: "i < length ls" "i < length (isna tx)" "\<not> isna tx ! i"
      and s: "ls ! i = PyStr s" "mapping s = None" "int_of_str s = Inl err"
  shows "(\<exists>e. load_dataset_csv read_csv astype_str csv_path text_col label_col = Inl e
             \<and> (e = ValueError invalid_literal \<or> e = ValueError exceeds_limit
                  \<or> (\<exists>m. e = OverflowError m)))
         \<and> normalize_labels (ObjectSeries [PyStr s]) = Inl err"
proof
  let ?keep = "dropna_mask tx (ObjectSeries ls)"
  let ?kept = "select_rows ?keep ls"
  let ?mapped = "map mapping_get ?kept"
  have single: "to_int64 (mapping_get (PyStr s)) = Inl err"
    using s(2,3) by (simp add: to_int64_def)
  with s(2) show "normalize_labels (ObjectSeries [PyStr s]) = Inl err"
    by (simp add: infer_objects_def)
  from i s(1) have "?keep ! i" by (simp add: dropna_mask_nth)
  moreover from i have "i < length ?keep" by (simp add: dropna_mask_length)
  ultimately have "ls ! i \<in> set ?kept" using i(1) by (simp add: select_rows_mem)
  with s(1) have "mapping_get (PyStr s) \<in> set ?mapped" by force
  with s(2) have mem: "PyStr s \<in> set ?mapped" by simp
  have "\<exists>e. normalize_labels (ObjectSeries ?kept) = Inl e
            \<and> (e = ValueError invalid_literal \<or> e = ValueError exceeds_limit
                 \<or> (\<exists>m. e = OverflowError m))"
  proof (cases "infer_objects ?mapped = Inr (ObjectSeries ?mapped)")
    case True
    from single s(2) have "to_int64 (PyStr s) = Inl err" by simp
    from convert_all_fails [where f = to_int64 and x = "PyStr s", OF mem this]
    obtain e where e: "convert_all to_int64 ?mapped = Inl e" by blast
    from convert_all_Inl [OF e] obtain v where
      v: "v \<in> set ?kept" "to_int64 (mapping_get v) = Inl e" by auto
    from to_int64_kept_error [OF kept_not_na [OF v(1)] v(2)] e True
    show ?thesis by simp
  next
    case False
    with infer_objects_str [OF mem] obtain m where
      "infer_objects ?mapped = Inl (OverflowError m)" by blast
    then show ?thesis by simp
  qed
  then show "\<exists>e. load_dataset_csv read_csv astype_str csv_path text_col label_col = Inl e
             \<and> (e = ValueError invalid_literal \<or> e = ValueError exceeds_limit
                  \<or> (\<exists>m. e = OverflowError m))"
    unfolding load_dataset_csv_present
      [where read_csv = read_csv and csv_path = csv_path, OF rd tx ly ne]
    by auto
qed

theorem unrecognized_label_fails_witness:
  "load_dataset_csv (frame [PyStr ''hello'', PyStr ''world''] (ObjectSeries [PyStr ''FAKE'', PyStr ''maybe'']))
     str_cells () ''text'' ''label'' = Inl (ValueError invalid_literal)
   \<and> normalize_labels (ObjectSeries [PyStr ''maybe'']) = Inl (ValueError invalid_literal)"
proof -
  have ev: "load_dataset_csv (frame [PyStr ''hello'', PyStr ''world''] (ObjectSeries [PyStr ''FAKE'', PyStr ''maybe'']))
     str_cells () ''text'' ''label'' = Inl (ValueError invalid_literal)"
    by (simp add: eval_loader)
  have m: "mapping ''maybe'' = None" by (simp add: mapping_def)
  have n: "int_of_str ''maybe'' = Inl (ValueError invalid_literal)" by (simp add: eval_loader)
  from unrecognized_label_fails [where read_csv = "frame [PyStr ''hello'', PyStr ''world''] (ObjectSeries [PyStr ''FAKE'', PyStr ''maybe''])"
      and csv_path = "()" and text_col = "''text''" and label_col = "''label''" and i = 1
      and s = "''maybe''" and astype_str = str_cells, OF _ _ _ _ _ _ _ _ m n]
  show ?thesis using ev by (simp add: frame_def)
qed

lemma mapping_dom:
  "mapping s = Some i \<Longrightarrow> i = (if s \<in> {''FAKE'', ''fake'', ''FALSE'', ''false''} then 1 else 0)"
  by (auto simp: mapping_def split: if_splits)

lemma scan_small_ints:
  "\<forall>v\<in>set vs. v = 0 \<or> v = 1 \<Longrightarrow> \<not> uint_seen s \<Longrightarrow>
     scan_objects s (map PyInt vs) = Inr (Some (if vs = [] then s else s\<lparr>int_seen := True\<rparr>))"
proof (induction vs arbitrary: s)
  case Nil
  show ?case by simp
next
  case (Cons v vs)
  from Cons.prems have v: "v = 0 \<or> v = 1" by simp
  then have saw: "saw_int s v = s\<lparr>int_seen := True\<rparr>" by (auto simp: saw_int_def)
  from v have fits: "fits_double v" by (auto simp: fits_double_def)
  from v have range: "\<not> 2 ^ 64 \<le> v" "\<not> v < - (2 ^ 63)" by auto
  from Cons.prems have rest: "\<forall>v\<in>set vs. v = 0 \<or> v = 1" by simp
  from Cons.prems(2) have nu: "\<not> uint_seen (s\<lparr>int_seen := True\<rparr>)" by simp
  from Cons.IH [OF rest nu]
  have "scan_objects (s\<lparr>int_seen := True\<rparr>) (map PyInt vs) = Inr (Some (s\<lparr>int_seen := True\<rparr>))"
    by (simp split: if_splits)
  with saw fits range nu show ?case by simp
qed

lemma normalize_labels_small_ints:
  assumes "\<forall>v\<in>set vs. v = 0 \<or> v = 1"
  shows "(case infer_objects (map PyInt vs) of Inl e \<Rightarrow> Inl e | Inr s \<Rightarrow> astype_int s) = Inr vs"
proof -
  have "scan_objects nothing_seen (map PyInt vs) =
          Inr (Some (if vs = [] then nothing_seen else nothing_seen\<lparr>int_seen := True\<rparr>))"
    by (rule scan_small_ints) (use assms in \<open>simp_all add: nothing_seen_def\<close>)
  then show ?thesis
    by (cases "vs = []") (simp_all add: infer_objects_def nothing_seen_def comp_def)
qed

lemma normalize_labels_strings:
  assumes "set ss \<subseteq> dom mapping"
  shows "normalize_labels (ObjectSeries (map PyStr ss)) =
           Inr (map (\<lambda>s. if s \<in> {''FAKE'', ''fake'', ''FALSE'', ''false''} then 1 else 0) ss)"
proof -
  let ?f = "\<lambda>s. if s \<in> {''FAKE'', ''fake'', ''FALSE'', ''false''} then 1 else (0::int)"
  have "mapping_get (PyStr s) = PyInt (?f s)" if "s \<in> set ss" for s
  proof -
    from that assms obtain i where i: "mapping s = Some i" by auto
    from mapping_dom [OF i] i show ?thesis by simp
  qed
  then have "map mapping_get (map PyStr ss) = map PyInt (map ?f ss)" by simp
  moreover have "\<forall>v\<in>set (map ?f ss). v = 0 \<or> v = 1" by auto
  ultimately show ?thesis using normalize_labels_small_ints [of "map ?f ss"]
    by (simp only: normalize_labels.simps)
qed

lemma all_False:
  "\<forall>m\<in>set bs. \<not> m \<Longrightarrow> length bs = length ss \<Longrightarrow> bs = map (\<lambda>_. False) ss"
proof (induction bs arbitrary: ss)
  case Nil
  then show ?case by simp
next
  case (Cons b bs)
  then obtain t ts where ss: "ss = t # ts" by (cases ss) auto
  with Cons.prems have "bs = map (\<lambda>_. False) ts" by (intro Cons.IH) auto
  with Cons.prems ss show ?case by simp
qed

lemma keep_all_strings:
  "map2 (\<lambda>x y. \<not> x \<and> \<not> y) (map (\<lambda>_. False) ss) (map obj_isna (map PyStr ss)) = map (\<lambda>_. True) ss"
  by (induction ss) simp_all

text \<open>
  Claim C4, at three files. At the label \<open>Fake\<close> the lookup is by exact key, a
  capitalised spelling is not a key, and the loader fails on it. A column that holds
  only \<open>TRUE\<close> and \<open>FALSE\<close> is read by \<open>read_csv\<close> as a boolean column, which is not
  mapped, and \<open>TRUE\<close> yields 1. A numeric label that does not fit 64 signed bits is not
  kept as it is but wraps.
\<close>

theorem label_normalization_counterexample:
  "load_dataset_csv (frame [PyStr ''hello''] (ObjectSeries [PyStr ''Fake''])) str_cells () ''text'' ''label''
     = Inl (ValueError invalid_literal)
   \<and> load_dataset_csv (frame [PyStr ''hello'', PyStr ''world''] (BoolSeries [True, False]))
       str_cells () ''text'' ''label''
     = Inr [(''text'', ObjectSeries [PyStr ''hello'', PyStr ''world'']), (''label'', Int64Series [1, 0])]
   \<and> load_dataset_csv (frame [PyStr ''hello''] (UInt64Series [2 ^ 63])) str_cells () ''text'' ''label''
     = Inr [(''text'', ObjectSeries [PyStr ''hello'']), (''label'', Int64Series [- (2 ^ 63)])]"
  by (simp add: eval_loader)

text \<open>
  Claim C4 as amended. In a label column read as strings (an object column) label
  normalization maps the eight exact spellings that are the keys of the mapping:
  \<open>FAKE\<close>, \<open>fake\<close>, \<open>FALSE\<close>, \<open>false\<close> to 1 and \<open>REAL\<close>, \<open>real\<close>, \<open>TRUE\<close>, \<open>true\<close> to
  0. A column of any other dtype goes through no mapping but straight to the integer
  cast, which returns an int64 column as it is. Loading a file with no missing text
  whose labels are such spellings yields their integers, and the labels \<open>FAKE\<close>,
  \<open>real\<close>, \<open>TRUE\<close>, \<open>false\<close> yield 1, 0, 0, 1.
\<close>

theorem label_normalization:
  "(set ss \<subseteq> dom mapping \<longrightarrow>
      normalize_labels (ObjectSeries (map PyStr ss)) =
        Inr (map (\<lambda>s. if s \<in> {''FAKE'', ''fake'', ''FALSE'', ''false''} then 1 else 0) ss))
   \<and> dom mapping = {''FAKE'', ''fake'', ''FALSE'', ''false'', ''REAL'', ''real'', ''TRUE'', ''true''}
   \<and> normalize_labels (Int64Series xs) = Inr xs
   \<and> ((\<forall>ys. s \<noteq> ObjectSeries ys) \<longrightarrow> normalize_labels s = astype_int s)
   \<and> (read_csv csv_path = Inr df \<and> map_of df text_col = Some tx
        \<and> map_of df label_col = Some (ObjectSeries (map PyStr ss)) \<and> text_col \<noteq> label_col
        \<and> (\<forall>m\<in>set (isna tx). \<not> m) \<and> length (isna tx) = length ss \<and> set ss \<subseteq> dom mapping \<longrightarrow>
      load_dataset_csv read_csv astype_str csv_path text_col label_col =
        Inr [(text_col, ObjectSeries (map PyStr (astype_str tx))),
             (label_col, Int64Series
                (map (\<lambda>s. if s \<in> {''FAKE'', ''fake'', ''FALSE'', ''false''} then 1 else 0) ss))])
   \<and> map (\<lambda>s. if s \<in> {''FAKE'', ''fake'', ''FALSE'', ''false''} then 1 else (0::int))
        [''FAKE'', ''real'', ''TRUE'', ''false''] = [1, 0, 0, 1]"
proof (intro conjI impI)
  assume "set ss \<subseteq> dom mapping"
  then show "normalize_labels (ObjectSeries (map PyStr ss)) =
        Inr (map (\<lambda>s. if s \<in> {''FAKE'', ''fake'', ''FALSE'', ''false''} then 1 else 0) ss)"
    by (rule normalize_labels_strings)
next
  show "dom mapping = {''FAKE'', ''fake'', ''FALSE'', ''false'', ''REAL'', ''real'', ''TRUE'', ''true''}"
    by (auto simp: mapping_def split: if_splits)
next
  show "normalize_labels (Int64Series xs) = Inr xs" by simp
next
  assume "\<forall>ys. s \<noteq> ObjectSeries ys"
  then show "normalize_labels s = astype_int s" by (rule normalize_labels_other)
next
  assume a: "read_csv csv_path = Inr df \<and> map_of df text_col = Some tx
        \<and> map_of df label_col = Some (ObjectSeries (map PyStr ss)) \<and> text_col \<noteq> label_col
        \<and> (\<forall>m\<in>set (isna tx). \<not> m) \<and> length (isna tx) = length ss \<and> set ss \<subseteq> dom mapping"
  then have rd: "read_csv csv_path = Inr df" and tx: "map_of df text_col = Some tx"
    and ly: "map_of df label_col = Some (ObjectSeries (map PyStr ss))" and ne: "text_col \<noteq> label_col"
    and nomiss: "\<forall>m\<in>set (isna tx). \<not> m" and len: "length (isna tx) = length ss"
    and sub: "set ss \<subseteq> dom mapping" by blast+
  have keep: "dropna_mask tx (ObjectSeries (map PyStr ss)) = map (\<lambda>_. True) ss"
    unfolding dropna_mask_def all_False [OF nomiss len] isna.simps by (rule keep_all_strings)
  have all: "select_rows (map (\<lambda>_. True) ss) ys = ys" if "length ys = length ss" for ys :: "'z list"
    by (rule select_rows_all) (use that in auto)
  have rows_ly: "series_rows (map (\<lambda>_. True) ss) (ObjectSeries (map PyStr ss)) = ObjectSeries (map PyStr ss)"
    by (simp add: all)
  have rows_tx: "series_rows (map (\<lambda>_. True) ss) tx = tx"
    using len by (cases tx) (simp_all add: all)
  show "load_dataset_csv read_csv astype_str csv_path text_col label_col =
        Inr [(text_col, ObjectSeries (map PyStr (astype_str tx))),
             (label_col, Int64Series
                (map (\<lambda>s. if s \<in> {''FAKE'', ''fake'', ''FALSE'', ''false''} then 1 else 0) ss))]"
    unfolding load_dataset_csv_present
      [where read_csv = read_csv and csv_path = csv_path, OF rd tx ly ne]
    unfolding keep rows_ly rows_tx normalize_labels_strings [OF sub] by simp
next
  show "map (\<lambda>s. if s \<in> {''FAKE'', ''fake'', ''FALSE'', ''false''} then 1 else (0::int))
        [''FAKE'', ''real'', ''TRUE'', ''false''] = [1, 0, 0, 1]" by simp
qed

theorem label_normalization_witness:
  "load_dataset_csv
     (frame [PyStr ''a'', PyStr ''b'', PyStr ''c'', PyStr ''d'']
        (ObjectSeries [PyStr ''FAKE'', PyStr ''real'', PyStr ''TRUE'', PyStr ''false'']))
     str_cells () ''text'' ''label''
   = Inr [(''text'', ObjectSeries [PyStr ''a'', PyStr ''b'', PyStr ''c'', PyStr ''d'']),
          (''label'', Int64Series [1, 0, 0, 1])]"
proof -
  have d: "set [''FAKE'', ''real'', ''TRUE'', ''false''] \<subseteq> dom mapping"
    by (simp add: mapping_def)
  from label_normalization
     [where read_csv = "frame [PyStr ''a'', PyStr ''b'', PyStr ''c'', PyStr ''d'']
        (ObjectSeries [PyStr ''FAKE'', PyStr ''real'', PyStr ''TRUE'', PyStr ''false''])"
      and csv_path = "()" and text_col = "''text''" and label_col = "''label''"
      and ss = "[''FAKE'', ''real'', ''TRUE'', ''false'']"
      and tx = "ObjectSeries [PyStr ''a'', PyStr ''b'', PyStr ''c'', PyStr ''d'']"
      and df = "[(''text'', ObjectSeries [PyStr ''a'', PyStr ''b'', PyStr ''c'', PyStr ''d'']),
                 (''label'', ObjectSeries [PyStr ''FAKE'', PyStr ''real'', PyStr ''TRUE'', PyStr ''false''])]"
      and astype_str = str_cells] d
  show ?thesis by (simp add: frame_def str_cells_def)
qed

text \<open>
  Claim C10. A label column whose dtype is not object goes through no string mapping
  but straight to the integer cast, so a boolean \<open>True\<close> yields 1 and \<open>False\<close> yields
  0, also through the loader, while the strings \<open>TRUE\<close> and \<open>FALSE\<close> yield 0 and 1.
\<close>

theorem boolean_labels_cast:
  "normalize_labels (BoolSeries bs) = Inr (map (\<lambda>b. if b then 1 else 0) bs)
   \<and> ((\<forall>xs. s \<noteq> ObjectSeries xs) \<longrightarrow> normalize_labels s = astype_int s)
   \<and> normalize_labels (BoolSeries [True, False]) = Inr [1, 0]
   \<and> normalize_labels (ObjectSeries [PyStr ''TRUE'', PyStr ''FALSE'']) = Inr [0, 1]
   \<and> (read_csv csv_path = Inr df \<and> map_of df text_col = Some tx
        \<and> map_of df label_col = Some (BoolSeries bs) \<and> text_col \<noteq> label_col \<longrightarrow>
      load_dataset_csv read_csv astype_str csv_path text_col label_col =
        Inr [(text_col,
              ObjectSeries (map PyStr (astype_str (series_rows (dropna_mask tx (BoolSeries bs)) tx)))),
             (label_col,
              Int64Series (map (\<lambda>b. if b then 1 else 0)
                             (select_rows (dropna_mask tx (BoolSeries bs)) bs)))])"
proof (intro conjI impI)
  show "normalize_labels (BoolSeries bs) = Inr (map (\<lambda>b. if b then 1 else 0) bs)" by simp
  show "normalize_labels s = astype_int s" if "\<forall>xs. s \<noteq> ObjectSeries xs"
    using that by (cases s) simp_all
  show "normalize_labels (BoolSeries [True, False]) = Inr [1, 0]" by simp
  show "normalize_labels (ObjectSeries [PyStr ''TRUE'', PyStr ''FALSE'']) = Inr [0, 1]"
    by (simp add: mapping_def infer_objects_def nothing_seen_def saw_int_def fits_double_def)
next
  assume a: "read_csv csv_path = Inr df \<and> map_of df text_col = Some tx
        \<and> map_of df label_col = Some (BoolSeries bs) \<and> text_col \<noteq> label_col"
  then have rd: "read_csv csv_path = Inr df" and tx: "map_of df text_col = Some tx"
    and ly: "map_of df label_col = Some (BoolSeries bs)" and ne: "text_col \<noteq> label_col"
    by blast+
  show "load_dataset_csv read_csv astype_str csv_path text_col label_col =
        Inr [(text_col,
              ObjectSeries (map PyStr (astype_str (series_rows (dropna_mask tx (BoolSeries bs)) tx)))),
             (label_col,
              Int64Series (map (\<lambda>b. if b then 1 else 0)
                             (select_rows (dropna_mask tx (BoolSeries bs)) bs)))]"
    unfolding load_dataset_csv_present
      [where read_csv = read_csv and csv_path = csv_path, OF rd tx ly ne]
    by simp
qed

theorem boolean_labels_cast_witness:
  "load_dataset_csv (frame [PyStr ''hello'', PyStr ''world''] (BoolSeries [True, False]))
     str_cells () ''text'' ''label''
   = Inr [(''text'', ObjectSeries [PyStr ''hello'', PyStr ''world'']), (''label'', Int64Series [1, 0])]
   \<and> normalize_labels (Int64Series [1, 0]) = astype_int (Int64Series [1, 0])"
  using boolean_labels_cast
     [where read_csv = "frame [PyStr ''hello'', PyStr ''world''] (BoolSeries [True, False])"
      and csv_path = "()" and text_col = "''text''" and label_col = "''label''"
      and bs = "[True, False]" and s = "Int64Series [1, 0]"
      and tx = "ObjectSeries [PyStr ''hello'', PyStr ''world'']"
      and df = "[(''text'', ObjectSeries [PyStr ''hello'', PyStr ''world'']),
                 (''label'', BoolSeries [True, False])]"
      and astype_str = str_cells]
  by (simp add: frame_def str_cells_def dropna_mask_def select_rows_def)

section \<open>Properties of the splitter\<close>

text \<open>
  Claim C9. For every dataset and every validation fraction outside the open interval
  (0,1) the splitter fails and produces no partition; with both columns present the
  failure is the \<open>ValueError\<close> of the split about \<open>test_size\<close>.
\<close>

theorem train_val_split_fraction:
  "val_size \<le> 0 \<or> 1 \<le> val_size \<longrightarrow>
     train_test_split stratified_shuffle X y val_size random_state = Inl (ValueError test_size_error)
     \<and> (\<exists>e. train_val_split stratified_shuffle df text_col label_col val_size random_state = Inl e)
     \<and> (map_of df text_col = Some X \<and> map_of df label_col = Some y \<longrightarrow>
          train_val_split stratified_shuffle df text_col label_col val_size random_state
            = Inl (ValueError test_size_error))"
proof
  assume out: "val_size \<le> 0 \<or> 1 \<le> val_size"
  then have tts: "train_test_split stratified_shuffle X' y' val_size random_state
                    = Inl (ValueError test_size_error)" for X' y'
    by (auto simp: train_test_split_def)
  have fails: "\<exists>e. train_val_split stratified_shuffle df text_col label_col val_size random_state = Inl e"
    by (simp add: train_val_split_def tts split: sum.splits)
  have present: "train_val_split stratified_shuffle df text_col label_col val_size random_state
            = Inl (ValueError test_size_error)"
    if "map_of df text_col = Some X \<and> map_of df label_col = Some y"
    using that by (simp add: train_val_split_def tts column_Some)
  from tts fails present
  show "train_test_split stratified_shuffle X y val_size random_state = Inl (ValueError test_size_error)
     \<and> (\<exists>e. train_val_split stratified_shuffle df text_col label_col val_size random_state = Inl e)
     \<and> (map_of df text_col = Some X \<and> map_of df label_col = Some y \<longrightarrow>
          train_val_split stratified_shuffle df text_col label_col val_size random_state
            = Inl (ValueError test_size_error))"
    by blast
qed

theorem train_val_split_fraction_witness:
  "train_val_split no_shuffle
     [(''text'', ObjectSeries [PyStr ''hello'', PyStr ''world'']), (''label'', Int64Series [1, 0])]
     ''text'' ''label'' (3 / 2) 42 = Inl (ValueError test_size_error)
   \<and> train_val_split no_shuffle
     [(''text'', ObjectSeries [PyStr ''hello'', PyStr ''world'']), (''label'', Int64Series [1, 0])]
     ''text'' ''label'' 0 42 = Inl (ValueError test_size_error)"
  using train_val_split_fraction
     [where val_size = "3 / 2" and stratified_shuffle = no_shuffle and random_state = 42
        and df = "[(''text'', ObjectSeries [PyStr ''hello'', PyStr ''world'']), (''label'', Int64Series [1, 0])]"
        and text_col = "''text''" and label_col = "''label''"
        and X = "ObjectSeries [PyStr ''hello'', PyStr ''world'']" and y = "Int64Series [1, 0]"]
     train_val_split_fraction
     [where val_size = 0 and stratified_shuffle = no_shuffle and random_state = 42
        and df = "[(''text'', ObjectSeries [PyStr ''hello'', PyStr ''world'']), (''label'', Int64Series [1, 0])]"
        and text_col = "''text''" and label_col = "''label''"
        and X = "ObjectSeries [PyStr ''hello'', PyStr ''world'']" and y = "Int64Series [1, 0]"]
  by simp

end
